theory Spec2Isabelle
  imports Complex_Main
begin

section \<open>Floating-point values\<close>

text \<open>
  \<open>Float\<close> is the renderer's IEEE-754 scalar type. It is embedded as the reals extended
  by the two infinities and NaN, so that \<open>INFINITY\<close>, a division by zero and a
  comparison with NaN are values of the model instead of HOL's \<open>x / 0 = 0\<close>.
  The sign of zero is not modelled, and a nonzero finite value divided by zero takes the
  sign of the numerator. The operations of this section are exact: a finite result is
  the exact real result. The format itself rounds: a result too small to represent is
  stored as zero and one too large as an infinity. \<open>glossy_pdf::value\<close>, whose result
  and whose branch depend on that, is embedded with the rounded operations defined
  further down.
\<close>

datatype Float = Fin real | PInf | NInf | NaN

fun fneg :: "Float \<Rightarrow> Float" where
  "fneg (Fin a) = Fin (- a)"
| "fneg PInf = NInf"
| "fneg NInf = PInf"
| "fneg NaN = NaN"

fun fadd :: "Float \<Rightarrow> Float \<Rightarrow> Float" where
  "fadd NaN _ = NaN"
| "fadd _ NaN = NaN"
| "fadd (Fin a) (Fin b) = Fin (a + b)"
| "fadd PInf NInf = NaN"
| "fadd NInf PInf = NaN"
| "fadd PInf _ = PInf"
| "fadd _ PInf = PInf"
| "fadd NInf _ = NInf"
| "fadd _ NInf = NInf"

definition fsub :: "Float \<Rightarrow> Float \<Rightarrow> Float" where
  "fsub a b = fadd a (fneg b)"

text \<open>The sign of a value that is not NaN: \<open>1\<close>, \<open>0\<close> or \<open>-1\<close>.\<close>

fun fsign :: "Float \<Rightarrow> int" where
  "fsign (Fin a) = (if a = 0 then 0 else if 0 < a then 1 else -1)"
| "fsign PInf = 1"
| "fsign NInf = -1"
| "fsign NaN = 0"

definition inf_of_sign :: "int \<Rightarrow> Float" where
  "inf_of_sign k = (if k = 0 then NaN else if 0 < k then PInf else NInf)"

fun fmul :: "Float \<Rightarrow> Float \<Rightarrow> Float" where
  "fmul NaN _ = NaN"
| "fmul _ NaN = NaN"
| "fmul (Fin a) (Fin b) = Fin (a * b)"
| "fmul a b = inf_of_sign (fsign a * fsign b)"

fun fdiv :: "Float \<Rightarrow> Float \<Rightarrow> Float" where
  "fdiv NaN _ = NaN"
| "fdiv _ NaN = NaN"
| "fdiv (Fin a) (Fin b) = (if b = 0 then inf_of_sign (fsign (Fin a)) else Fin (a / b))"
| "fdiv (Fin a) _ = Fin 0"
| "fdiv PInf (Fin b) = (if b < 0 then NInf else PInf)"
| "fdiv NInf (Fin b) = (if b < 0 then PInf else NInf)"
| "fdiv _ _ = NaN"

fun fless :: "Float \<Rightarrow> Float \<Rightarrow> bool" where
  "fless NaN _ = False"
| "fless _ NaN = False"
| "fless (Fin a) (Fin b) = (a < b)"
| "fless NInf NInf = False"
| "fless NInf _ = True"
| "fless PInf _ = False"
| "fless (Fin a) PInf = True"
| "fless (Fin a) NInf = False"

fun fabs :: "Float \<Rightarrow> Float" where
  "fabs (Fin a) = Fin \<bar>a\<bar>"
| "fabs PInf = PInf"
| "fabs NInf = PInf"
| "fabs NaN = NaN"

fun fsqrt :: "Float \<Rightarrow> Float" where
  "fsqrt (Fin a) = (if a < 0 then NaN else Fin (sqrt a))"
| "fsqrt PInf = PInf"
| "fsqrt NInf = NaN"
| "fsqrt NaN = NaN"

definition M_PI :: Float where
  "M_PI = Fin pi"

definition M_1_PI :: Float where
  "M_1_PI = Fin (1 / pi)"

definition INFINITY :: Float where
  "INFINITY = PInf"

section \<open>Vectors\<close>

text \<open>
  Modelled from the spec: \<open>vec3\<close> and its operations (\<open>vec3.h\<close> is not among the
  sources). The spec names them \<open>dot\<close>, \<open>cross\<close>, \<open>normalize\<close> and \<open>|v|\<close>; they are
  given their usual componentwise meaning over \<open>Float\<close>. The accessors \<open>x()\<close>,
  \<open>y()\<close>, \<open>z()\<close> are \<open>vec3_x\<close>, \<open>vec3_y\<close>, \<open>vec3_z\<close>.
\<close>

datatype vec3 = vec3 (vec3_x: Float) (vec3_y: Float) (vec3_z: Float)

datatype vec2 = vec2 (vec2_x: Float) (vec2_y: Float)

definition vadd :: "vec3 \<Rightarrow> vec3 \<Rightarrow> vec3" where
  "vadd p q = vec3 (fadd (vec3_x p) (vec3_x q)) (fadd (vec3_y p) (vec3_y q))
                   (fadd (vec3_z p) (vec3_z q))"

definition vsub :: "vec3 \<Rightarrow> vec3 \<Rightarrow> vec3" where
  "vsub p q = vec3 (fsub (vec3_x p) (vec3_x q)) (fsub (vec3_y p) (vec3_y q))
                   (fsub (vec3_z p) (vec3_z q))"

definition vneg :: "vec3 \<Rightarrow> vec3" where
  "vneg p = vec3 (fneg (vec3_x p)) (fneg (vec3_y p)) (fneg (vec3_z p))"

definition vdivs :: "vec3 \<Rightarrow> Float \<Rightarrow> vec3" where
  "vdivs p t = vec3 (fdiv (vec3_x p) t) (fdiv (vec3_y p) t) (fdiv (vec3_z p) t)"

definition dot :: "vec3 \<Rightarrow> vec3 \<Rightarrow> Float" where
  "dot p q = fadd (fadd (fmul (vec3_x p) (vec3_x q)) (fmul (vec3_y p) (vec3_y q)))
                  (fmul (vec3_z p) (vec3_z q))"

definition cross :: "vec3 \<Rightarrow> vec3 \<Rightarrow> vec3" where
  "cross p q = vec3 (fsub (fmul (vec3_y p) (vec3_z q)) (fmul (vec3_z p) (vec3_y q)))
                    (fsub (fmul (vec3_z p) (vec3_x q)) (fmul (vec3_x p) (vec3_z q)))
                    (fsub (fmul (vec3_x p) (vec3_y q)) (fmul (vec3_y p) (vec3_x q)))"

definition vlength :: "vec3 \<Rightarrow> Float" where
  "vlength p = fsqrt (dot p p)"

definition unit_vector :: "vec3 \<Rightarrow> vec3" where
  "unit_vector p = vdivs p (vlength p)"

definition make_unit_vector :: "vec3 \<Rightarrow> vec3" where
  "make_unit_vector p = unit_vector p"

section \<open>The triangle primitive\<close>

text \<open>
  A pointer is \<open>None\<close> when it is null and \<open>Some\<close> of an address otherwise. The three
  pointer members have three different target types, so a deleted object is tagged with
  its type. The shading normals of a triangle built without them are left
  uninitialised by the source; that is \<open>None\<close> here.
\<close>

datatype obj = Material nat | Alpha_texture nat | Bump_texture nat

record triangle =
  normal :: vec3
  a :: vec3
  b :: vec3
  c :: vec3
  na :: "vec3 option"
  nb :: "vec3 option"
  nc :: "vec3 option"
  edge1 :: vec3
  edge2 :: vec3
  area :: Float
  normals_provided :: bool
  single :: bool
  mp :: "nat option"
  alpha_mask :: "nat option"
  bump_tex :: "nat option"

text \<open>The constructor without shading normals (\<open>triangle.h\<close>, lines 18 to 27).\<close>

definition triangle_flat ::
  "vec3 \<Rightarrow> vec3 \<Rightarrow> vec3 \<Rightarrow> bool \<Rightarrow> nat option \<Rightarrow> nat option \<Rightarrow> nat option \<Rightarrow> triangle" where
  "triangle_flat a' b' c' single' mat am bt =
     (let edge1' = vsub b' a';
          edge2' = vsub c' a';
          normal' = cross edge1' edge2';
          area' = fdiv (vlength normal') (Fin 2);
          normal'' = make_unit_vector normal'
      in \<lparr>normal = normal'', a = a', b = b', c = c', na = None, nb = None, nc = None,
          edge1 = edge1', edge2 = edge2', area = area', normals_provided = False,
          single = single', mp = mat, alpha_mask = am, bump_tex = bt\<rparr>)"

text \<open>The constructor with shading normals (\<open>triangle.h\<close>, lines 28 to 37).\<close>

definition triangle_normals ::
  "vec3 \<Rightarrow> vec3 \<Rightarrow> vec3 \<Rightarrow> vec3 \<Rightarrow> vec3 \<Rightarrow> vec3 \<Rightarrow> bool \<Rightarrow> nat option \<Rightarrow> nat option \<Rightarrow> nat option
     \<Rightarrow> triangle" where
  "triangle_normals a' b' c' na' nb' nc' single' mat am bt =
     (let edge1' = vsub b' a';
          edge2' = vsub c' a';
          normal' = cross edge1' edge2';
          area' = fdiv (vlength normal') (Fin 2)
      in \<lparr>normal = normal', a = a', b = b', c = c', na = Some na', nb = Some nb',
          nc = Some nc', edge1 = edge1', edge2 = edge2', area = area',
          normals_provided = True, single = single', mp = mat, alpha_mask = am,
          bump_tex = bt\<rparr>)"

text \<open>
  \<open>delete\<close> is an effect on the free store; the state threaded through the destructor
  is the sequence of objects deleted so far.
\<close>

definition delete :: "obj \<Rightarrow> obj list \<Rightarrow> obj list" where
  "delete p deleted = deleted @ [p]"

definition triangle_dtor :: "triangle \<Rightarrow> obj list \<Rightarrow> obj list" where
  "triangle_dtor t deleted =
     (if single t then
        (let d1 = (case mp t of Some m \<Rightarrow> delete (Material m) deleted | None \<Rightarrow> deleted);
             d2 = (case alpha_mask t of Some m \<Rightarrow> delete (Alpha_texture m) d1 | None \<Rightarrow> d1);
             d3 = (case bump_tex t of Some m \<Rightarrow> delete (Bump_texture m) d2 | None \<Rightarrow> d2)
         in d3)
      else deleted)"

section \<open>External collaborators of the density objects\<close>

text \<open>
  The orthonormal frame \<open>onb\<close> holds its three axes; \<open>w()\<close> is \<open>onb_w\<close>. A
  \<open>MicrofacetDistribution\<close> and a \<open>hitable_list\<close> are reached through pointers to
  objects with virtual members; each is the record of the members that are called.
  \<open>random_gen\<close> is any type \<open>'g\<close> of generator states and \<open>Sampler\<close> any type \<open>'s\<close>
  of sampler states: a member that takes one by reference returns its new state.
\<close>

record onb =
  onb_u :: vec3
  onb_v :: vec3
  onb_w :: vec3

record MicrofacetDistribution =
  Pdf :: "vec3 \<Rightarrow> vec3 \<Rightarrow> vec3 \<Rightarrow> Float"
  Sample_wh :: "vec3 \<Rightarrow> Float \<Rightarrow> Float \<Rightarrow> vec3"

record ('g, 's) hitable_list =
  pdf_value :: "vec3 \<Rightarrow> vec3 \<Rightarrow> 'g \<Rightarrow> Float \<times> 'g"
  random :: "vec3 \<Rightarrow> 'g \<Rightarrow> vec3 \<times> 'g"
  random_s :: "vec3 \<Rightarrow> 's \<Rightarrow> vec3 \<times> 's"

section \<open>hair\_pdf\<close>

text \<open>
  A C array is a list of its elements. Indexing one outside its bounds is undefined
  behaviour in the source; in the model it is an error value that names the index.
\<close>

datatype error = Read_out_of_bounds nat | Write_out_of_bounds nat

definition array_read :: "Float list \<Rightarrow> nat \<Rightarrow> error + Float" where
  "array_read xs i = (if i < length xs then Inr (xs ! i) else Inl (Read_out_of_bounds i))"

definition array_write :: "Float list \<Rightarrow> nat \<Rightarrow> Float \<Rightarrow> error + Float list" where
  "array_write xs i t = (if i < length xs then Inr (xs[i := t]) else Inl (Write_out_of_bounds i))"

record hair_pdf =
  hair_uvw :: onb
  hair_wi :: vec3
  hair_wo :: vec3
  hair_eta :: Float
  hair_h :: Float
  hair_gammaO :: Float
  hair_s :: Float
  hair_sigma_a :: vec3
  hair_sin2kAlpha :: "Float list"
  hair_cos2kAlpha :: "Float list"
  hair_v :: "Float list"

text \<open>
  The first loop of the constructor, \<open>for (int i = 0; i < 3; ++i)\<close>; the state is the
  pair of member arrays \<open>sin2kAlpha\<close> and \<open>cos2kAlpha\<close>.
\<close>

function copy_2kAlpha ::
  "Float list \<Rightarrow> Float list \<Rightarrow> nat \<Rightarrow> Float list \<times> Float list
     \<Rightarrow> error + Float list \<times> Float list" where
  "copy_2kAlpha sin_arg cos_arg i (sn, cs) =
     (if i < 3 then
        (case array_read sin_arg i of Inl e \<Rightarrow> Inl e | Inr t1 \<Rightarrow>
         (case array_write sn i t1 of Inl e \<Rightarrow> Inl e | Inr sn1 \<Rightarrow>
          (case array_read cos_arg i of Inl e \<Rightarrow> Inl e | Inr t2 \<Rightarrow>
           (case array_write cs i t2 of Inl e \<Rightarrow> Inl e | Inr cs1 \<Rightarrow>
              copy_2kAlpha sin_arg cos_arg (i + 1) (sn1, cs1)))))
      else Inr (sn, cs))"
  by pat_completeness auto
termination
  by (relation "measure (\<lambda>(sin_arg, cos_arg, i, st). 3 - i)") auto

text \<open>
  The second loop, \<open>for (int p = 0; p <= pMax + 1; ++p) v[p] = v_[p]\<close>; the state is
  the member array \<open>v\<close>. The constant \<open>pMax\<close> is declared in a header that is not
  among the sources and is a parameter.
\<close>

function copy_v :: "nat \<Rightarrow> Float list \<Rightarrow> nat \<Rightarrow> Float list \<Rightarrow> error + Float list" where
  "copy_v pMax v_arg p vs =
     (if p \<le> pMax + 1 then
        (case array_read v_arg p of Inl e \<Rightarrow> Inl e | Inr t \<Rightarrow>
         (case array_write vs p t of Inl e \<Rightarrow> Inl e | Inr vs1 \<Rightarrow>
            copy_v pMax v_arg (p + 1) vs1))
      else Inr vs)"
  by pat_completeness auto
termination
  by (relation "measure (\<lambda>(pMax, v_arg, p, vs). pMax + 2 - p)") auto

text \<open>
  The constructor. The member arrays \<open>sin2kAlpha[3]\<close>, \<open>cos2kAlpha[3]\<close> and
  \<open>v[pMax + 1]\<close> are not initialised before the loops fill them: they start with an
  indeterminate content \<open>indet\<close>.
\<close>

definition hair_pdf ::
  "nat \<Rightarrow> Float \<Rightarrow> onb \<Rightarrow> vec3 \<Rightarrow> vec3 \<Rightarrow> Float \<Rightarrow> Float \<Rightarrow> Float \<Rightarrow> Float \<Rightarrow> vec3
     \<Rightarrow> Float list \<Rightarrow> Float list \<Rightarrow> Float list \<Rightarrow> error + hair_pdf" where
  "hair_pdf pMax indet uvw_arg wi_arg wo_arg eta_arg h_arg gammaO_arg s_arg sigma_a_arg
            cos_arg sin_arg v_arg =
     (case copy_2kAlpha sin_arg cos_arg 0 (replicate 3 indet, replicate 3 indet) of
        Inl e \<Rightarrow> Inl e
      | Inr (sn, cs) \<Rightarrow>
        (case copy_v pMax v_arg 0 (replicate (pMax + 1) indet) of
           Inl e \<Rightarrow> Inl e
         | Inr vs \<Rightarrow>
             Inr \<lparr>hair_uvw = uvw_arg, hair_wi = wi_arg, hair_wo = wo_arg, hair_eta = eta_arg,
                  hair_h = h_arg, hair_gammaO = gammaO_arg, hair_s = s_arg,
                  hair_sigma_a = sigma_a_arg, hair_sin2kAlpha = sn, hair_cos2kAlpha = cs,
                  hair_v = vs\<rparr>))"

text \<open>
  The functions that the headers missing from the sources define (\<open>onbh.h\<close>,
  \<open>rng.h\<close>, \<open>sampler.h\<close>, \<open>mathinline.h\<close>) and the three members of \<open>hair_pdf\<close>
  that \<open>pdf.h\<close> only declares are parameters of the model, collected in one record.
  C++ leaves open the order in which the two operands of \<open>+\<close> and the arguments of a
  call are evaluated: \<open>left_first\<close> is the compiler's choice for the operands of the
  sum in \<open>mixture_pdf::value\<close> and \<open>args_left_first\<close> its choice for the arguments
  of \<open>Sample_wh\<close>. \<open>float_round\<close> is the rounding of the \<open>Float\<close> format, whose
  typedef is in a header that is not among the sources, and \<open>double_round\<close> the
  rounding of \<open>double\<close>: each takes the exact real result of an operation to the value
  that is stored, which is zero for a result too small to represent and infinite for
  one too large.
\<close>

record ('g, 's) ext =
  build_from_w :: "vec3 \<Rightarrow> onb"
  world_to_local :: "onb \<Rightarrow> vec3 \<Rightarrow> vec3"
  local_to_world :: "onb \<Rightarrow> vec3 \<Rightarrow> vec3"
  unif_rand :: "'g \<Rightarrow> Float \<times> 'g"
  random_cosine_direction :: "'g \<Rightarrow> vec3 \<times> 'g"
  Get1D :: "'s \<Rightarrow> Float \<times> 's"
  Get2D :: "'s \<Rightarrow> vec2 \<times> 's"
  rand_cosine_direction :: "vec2 \<Rightarrow> vec3"
  Reflect :: "vec3 \<Rightarrow> vec3 \<Rightarrow> vec3"
  hair_pdf_value :: "hair_pdf \<Rightarrow> vec3 \<Rightarrow> 'g \<Rightarrow> Float \<times> 'g"
  hair_pdf_generate :: "hair_pdf \<Rightarrow> 'g \<Rightarrow> vec3 \<times> 'g"
  hair_pdf_generate_s :: "hair_pdf \<Rightarrow> 's \<Rightarrow> vec3 \<times> 's"
  left_first :: bool
  args_left_first :: bool
  float_round :: "real \<Rightarrow> Float"
  double_round :: "real \<Rightarrow> Float"

text \<open>
  Modelled from the spec: \<open>AbsCosTheta\<close> (\<open>mathinline.h\<close> is not among the sources);
  the spec writes the term it contributes as \<open>|wi.z|\<close>.
\<close>

definition AbsCosTheta :: "vec3 \<Rightarrow> Float" where
  "AbsCosTheta p = fabs (vec3_z p)"

text \<open>
  Rounded arithmetic. A finite exact result is rounded; an infinity or NaN is kept.
  C++ evaluates an operation on two \<open>Float\<close> operands (or a \<open>Float\<close> and an
  \<open>int\<close>) in \<open>Float\<close>, and an operation with a \<open>double\<close> operand in \<open>double\<close>.
\<close>

definition rounded :: "(real \<Rightarrow> Float) \<Rightarrow> Float \<Rightarrow> Float" where
  "rounded rnd t = (case t of Fin r \<Rightarrow> rnd r | _ \<Rightarrow> t)"

definition float_mul :: "('g, 's) ext \<Rightarrow> Float \<Rightarrow> Float \<Rightarrow> Float" where
  "float_mul E s t = rounded (float_round E) (fmul s t)"

definition float_div :: "('g, 's) ext \<Rightarrow> Float \<Rightarrow> Float \<Rightarrow> Float" where
  "float_div E s t = rounded (float_round E) (fdiv s t)"

definition double_mul :: "('g, 's) ext \<Rightarrow> Float \<Rightarrow> Float \<Rightarrow> Float" where
  "double_mul E s t = rounded (double_round E) (fmul s t)"

definition double_add :: "('g, 's) ext \<Rightarrow> Float \<Rightarrow> Float \<Rightarrow> Float" where
  "double_add E s t = rounded (double_round E) (fadd s t)"

section \<open>cosine\_pdf\<close>

record cosine_pdf =
  cosine_uvw :: onb

definition cosine_pdf :: "('g, 's) ext \<Rightarrow> vec3 \<Rightarrow> cosine_pdf" where
  "cosine_pdf E n = \<lparr>cosine_uvw = build_from_w E n\<rparr>"

definition cosine_pdf_value :: "cosine_pdf \<Rightarrow> vec3 \<Rightarrow> 'g \<Rightarrow> Float \<times> 'g" where
  "cosine_pdf_value this direction rng =
     (let cosine = dot (unit_vector direction) (onb_w (cosine_uvw this))
      in if fless (Fin 0) cosine then (fdiv cosine M_PI, rng) else (Fin 0, rng))"

definition cosine_pdf_generate :: "('g, 's) ext \<Rightarrow> cosine_pdf \<Rightarrow> 'g \<Rightarrow> vec3 \<times> 'g" where
  "cosine_pdf_generate E this rng =
     (let (dir, rng1) = random_cosine_direction E rng
      in (local_to_world E (cosine_uvw this) dir, rng1))"

definition cosine_pdf_generate_s :: "('g, 's) ext \<Rightarrow> cosine_pdf \<Rightarrow> 's \<Rightarrow> vec3 \<times> 's" where
  "cosine_pdf_generate_s E this sampler =
     (let (u2, sampler1) = Get2D E sampler
      in (local_to_world E (cosine_uvw this) (rand_cosine_direction E u2), sampler1))"

section \<open>micro\_pdf and glossy\_pdf\<close>

record micro_pdf =
  micro_uvw :: onb
  micro_wi :: vec3
  micro_distribution :: MicrofacetDistribution

definition micro_pdf :: "('g, 's) ext \<Rightarrow> vec3 \<Rightarrow> vec3 \<Rightarrow> MicrofacetDistribution \<Rightarrow> micro_pdf" where
  "micro_pdf E n wi' distribution =
     (let uvw = build_from_w E n
      in \<lparr>micro_uvw = uvw, micro_wi = vneg (unit_vector (world_to_local E uvw wi')),
          micro_distribution = distribution\<rparr>)"

definition micro_pdf_value :: "('g, 's) ext \<Rightarrow> micro_pdf \<Rightarrow> vec3 \<Rightarrow> 'g \<Rightarrow> Float \<times> 'g" where
  "micro_pdf_value E this direction rng =
     (let wo = unit_vector (world_to_local E (micro_uvw this) direction);
          wh = unit_vector (vadd (micro_wi this) wo)
      in (fdiv (Pdf (micro_distribution this) wo (micro_wi this) wh)
               (fmul (Fin 4) (dot wo wh)), rng))"

text \<open>
  The two arguments \<open>rng.unif_rand()\<close> of \<open>Sample_wh\<close> are evaluated in an order the
  language leaves open; \<open>two_unif_rand\<close> returns them as (first argument, second
  argument) for either order.
\<close>

definition two_unif_rand :: "('g, 's) ext \<Rightarrow> 'g \<Rightarrow> (Float \<times> Float) \<times> 'g" where
  "two_unif_rand E rng =
     (let (r1, rng1) = unif_rand E rng;
          (r2, rng2) = unif_rand E rng1
      in if args_left_first E then ((r1, r2), rng2) else ((r2, r1), rng2))"

definition micro_pdf_generate :: "('g, 's) ext \<Rightarrow> micro_pdf \<Rightarrow> 'g \<Rightarrow> vec3 \<times> 'g" where
  "micro_pdf_generate E this rng =
     (let ((u1, u2), rng1) = two_unif_rand E rng;
          wh = Sample_wh (micro_distribution this) (micro_wi this) u1 u2
      in (local_to_world E (micro_uvw this) (Reflect E (micro_wi this) wh), rng1))"

definition micro_pdf_generate_s :: "('g, 's) ext \<Rightarrow> micro_pdf \<Rightarrow> 's \<Rightarrow> vec3 \<times> 's" where
  "micro_pdf_generate_s E this sampler =
     (let (u, sampler1) = Get2D E sampler;
          wh = Sample_wh (micro_distribution this) (micro_wi this) (vec2_x u) (vec2_y u)
      in (local_to_world E (micro_uvw this) (Reflect E (micro_wi this) wh), sampler1))"

record glossy_pdf =
  glossy_uvw :: onb
  glossy_wi :: vec3
  glossy_distribution :: MicrofacetDistribution

definition glossy_pdf :: "('g, 's) ext \<Rightarrow> vec3 \<Rightarrow> vec3 \<Rightarrow> MicrofacetDistribution \<Rightarrow> glossy_pdf" where
  "glossy_pdf E n wi' distribution =
     (let uvw = build_from_w E n
      in \<lparr>glossy_uvw = uvw, glossy_wi = vneg (unit_vector (world_to_local E uvw wi')),
          glossy_distribution = distribution\<rparr>)"

text \<open>
  In \<open>value\<close> the product that is tested is a product of two \<open>Float\<close>. In the
  returned expression \<open>M_1_PI\<close> is a \<open>double\<close>, so the product with it, the sum and
  the product with \<open>0.5f\<close> are evaluated in \<open>double\<close>; \<open>4 * dot(wo, wh)\<close> and the
  quotient are evaluated in \<open>Float\<close>; the result is converted to \<open>Float\<close> on return.
\<close>

definition glossy_pdf_value :: "('g, 's) ext \<Rightarrow> glossy_pdf \<Rightarrow> vec3 \<Rightarrow> 'g \<Rightarrow> Float \<times> 'g" where
  "glossy_pdf_value E this direction rng =
     (let wo = unit_vector (world_to_local E (glossy_uvw this) direction)
      in if fless (float_mul E (vec3_z wo) (vec3_z (glossy_wi this))) (Fin 0)
         then (INFINITY, rng)
         else
           (let wh = unit_vector (vadd (glossy_wi this) wo)
            in (rounded (float_round E)
                  (double_mul E (Fin (1 / 2))
                     (double_add E
                        (double_mul E (AbsCosTheta (glossy_wi this)) M_1_PI)
                        (float_div E (Pdf (glossy_distribution this) wo (glossy_wi this) wh)
                                     (float_mul E (Fin 4) (dot wo wh))))), rng)))"

definition glossy_pdf_generate :: "('g, 's) ext \<Rightarrow> glossy_pdf \<Rightarrow> 'g \<Rightarrow> vec3 \<times> 'g" where
  "glossy_pdf_generate E this rng =
     (let (r, rng1) = unif_rand E rng
      in if fless r (Fin (1 / 2)) then
           (let ((u1, u2), rng2) = two_unif_rand E rng1;
                wh = Sample_wh (glossy_distribution this) (glossy_wi this) u1 u2
            in (local_to_world E (glossy_uvw this) (Reflect E (glossy_wi this) wh), rng2))
         else
           (let (dir, rng2) = random_cosine_direction E rng1
            in (local_to_world E (glossy_uvw this) dir, rng2)))"

definition glossy_pdf_generate_s :: "('g, 's) ext \<Rightarrow> glossy_pdf \<Rightarrow> 's \<Rightarrow> vec3 \<times> 's" where
  "glossy_pdf_generate_s E this sampler =
     (let (r, sampler1) = Get1D E sampler
      in if fless r (Fin (1 / 2)) then
           (let (u, sampler2) = Get2D E sampler1;
                wh = Sample_wh (glossy_distribution this) (glossy_wi this) (vec2_x u) (vec2_y u)
            in (local_to_world E (glossy_uvw this) (Reflect E (glossy_wi this) wh), sampler2))
         else
           (let (u2, sampler2) = Get2D E sampler1
            in (local_to_world E (glossy_uvw this) (rand_cosine_direction E u2), sampler2)))"

section \<open>hitable\_pdf\<close>

record ('g, 's) hitable_pdf =
  hitable_ptr :: "('g, 's) hitable_list"
  hitable_o :: vec3

definition hitable_pdf :: "('g, 's) hitable_list \<Rightarrow> vec3 \<Rightarrow> ('g, 's) hitable_pdf" where
  "hitable_pdf p origin = \<lparr>hitable_ptr = p, hitable_o = origin\<rparr>"

definition hitable_pdf_value :: "('g, 's) hitable_pdf \<Rightarrow> vec3 \<Rightarrow> 'g \<Rightarrow> Float \<times> 'g" where
  "hitable_pdf_value this direction rng =
     pdf_value (hitable_ptr this) (hitable_o this) direction rng"

definition hitable_pdf_generate :: "('g, 's) hitable_pdf \<Rightarrow> 'g \<Rightarrow> vec3 \<times> 'g" where
  "hitable_pdf_generate this rng = random (hitable_ptr this) (hitable_o this) rng"

definition hitable_pdf_generate_s :: "('g, 's) hitable_pdf \<Rightarrow> 's \<Rightarrow> vec3 \<times> 's" where
  "hitable_pdf_generate_s this sampler = random_s (hitable_ptr this) (hitable_o this) sampler"

section \<open>The pdf family and mixture\_pdf\<close>

text \<open>
  The abstract class \<open>pdf\<close> with its six subclasses is a datatype with one constructor
  per subclass; \<open>mixture_pdf\<close> holds its two components \<open>p[0]\<close> and \<open>p[1]\<close>. The
  virtual members \<open>value\<close>, \<open>generate(random_gen&)\<close> and \<open>generate(Sampler*)\<close> are
  \<open>pdf_value_of\<close>, \<open>pdf_generate\<close> and \<open>pdf_generate_s\<close>, which dispatch on the
  constructor; the case of \<open>Mixture\<close> is the body of the member of \<open>mixture_pdf\<close>.
\<close>

datatype ('g, 's) pdf =
    Cosine cosine_pdf
  | Micro micro_pdf
  | Glossy glossy_pdf
  | Hair hair_pdf
  | Hitable "('g, 's) hitable_pdf"
  | Mixture "('g, 's) pdf" "('g, 's) pdf"

definition mixture_pdf :: "('g, 's) pdf \<Rightarrow> ('g, 's) pdf \<Rightarrow> ('g, 's) pdf" where
  "mixture_pdf p0 p1 = Mixture p0 p1"

fun pdf_value_of :: "('g, 's) ext \<Rightarrow> ('g, 's) pdf \<Rightarrow> vec3 \<Rightarrow> 'g \<Rightarrow> Float \<times> 'g" where
  "pdf_value_of E (Cosine this) direction rng = cosine_pdf_value this direction rng"
| "pdf_value_of E (Micro this) direction rng = micro_pdf_value E this direction rng"
| "pdf_value_of E (Glossy this) direction rng = glossy_pdf_value E this direction rng"
| "pdf_value_of E (Hair this) direction rng = hair_pdf_value E this direction rng"
| "pdf_value_of E (Hitable this) direction rng = hitable_pdf_value this direction rng"
| "pdf_value_of E (Mixture p0 p1) direction rng =
     (if left_first E then
        (let (t0, rng1) = pdf_value_of E p0 direction rng;
             (t1, rng2) = pdf_value_of E p1 direction rng1
         in (fadd (fmul (Fin (1 / 2)) t0) (fmul (Fin (1 / 2)) t1), rng2))
      else
        (let (t1, rng1) = pdf_value_of E p1 direction rng;
             (t0, rng2) = pdf_value_of E p0 direction rng1
         in (fadd (fmul (Fin (1 / 2)) t0) (fmul (Fin (1 / 2)) t1), rng2)))"

fun pdf_generate :: "('g, 's) ext \<Rightarrow> ('g, 's) pdf \<Rightarrow> 'g \<Rightarrow> vec3 \<times> 'g" where
  "pdf_generate E (Cosine this) rng = cosine_pdf_generate E this rng"
| "pdf_generate E (Micro this) rng = micro_pdf_generate E this rng"
| "pdf_generate E (Glossy this) rng = glossy_pdf_generate E this rng"
| "pdf_generate E (Hair this) rng = hair_pdf_generate E this rng"
| "pdf_generate E (Hitable this) rng = hitable_pdf_generate this rng"
| "pdf_generate E (Mixture p0 p1) rng =
     (let (r, rng1) = unif_rand E rng
      in if fless r (Fin (1 / 2)) then pdf_generate E p0 rng1 else pdf_generate E p1 rng1)"

fun pdf_generate_s :: "('g, 's) ext \<Rightarrow> ('g, 's) pdf \<Rightarrow> 's \<Rightarrow> vec3 \<times> 's" where
  "pdf_generate_s E (Cosine this) sampler = cosine_pdf_generate_s E this sampler"
| "pdf_generate_s E (Micro this) sampler = micro_pdf_generate_s E this sampler"
| "pdf_generate_s E (Glossy this) sampler = glossy_pdf_generate_s E this sampler"
| "pdf_generate_s E (Hair this) sampler = hair_pdf_generate_s E this sampler"
| "pdf_generate_s E (Hitable this) sampler = hitable_pdf_generate_s this sampler"
| "pdf_generate_s E (Mixture p0 p1) sampler =
     (let (r, sampler1) = Get1D E sampler
      in if fless r (Fin (1 / 2)) then pdf_generate_s E p0 sampler1 else pdf_generate_s E p1 sampler1)"

section \<open>An instance of the parameters\<close>

text \<open>
  Modelled from the spec: one concrete choice of the external collaborators, at which
  the theorems below are exercised. The frame is built from its \<open>w\<close> axis and converts
  between local and world space by the usual projections; the generator and the sampler
  are lists of numbers still to be handed out; the rounding of \<open>Float\<close> has the range
  of single precision (a magnitude of at most \<open>2^-150\<close> is stored as zero, one of at
  least \<open>2^128\<close> as an infinity) and is exact in between, the rounding of \<open>double\<close>
  is exact; one distribution has a constant density and one has an infinite density.
\<close>

definition fixture_build_from_w :: "vec3 \<Rightarrow> onb" where
  "fixture_build_from_w n =
     (let w_axis = unit_vector n;
          t = (if fless (Fin (9 / 10)) (fabs (vec3_x w_axis))
               then vec3 (Fin 0) (Fin 1) (Fin 0) else vec3 (Fin 1) (Fin 0) (Fin 0));
          v_axis = unit_vector (cross w_axis t);
          u_axis = cross w_axis v_axis
      in \<lparr>onb_u = u_axis, onb_v = v_axis, onb_w = w_axis\<rparr>)"

definition fixture_world_to_local :: "onb \<Rightarrow> vec3 \<Rightarrow> vec3" where
  "fixture_world_to_local uvw p = vec3 (dot p (onb_u uvw)) (dot p (onb_v uvw)) (dot p (onb_w uvw))"

definition vscale :: "Float \<Rightarrow> vec3 \<Rightarrow> vec3" where
  "vscale t p = vec3 (fmul t (vec3_x p)) (fmul t (vec3_y p)) (fmul t (vec3_z p))"

definition fixture_local_to_world :: "onb \<Rightarrow> vec3 \<Rightarrow> vec3" where
  "fixture_local_to_world uvw p =
     vadd (vadd (vscale (vec3_x p) (onb_u uvw)) (vscale (vec3_y p) (onb_v uvw)))
          (vscale (vec3_z p) (onb_w uvw))"

definition fixture_round :: "real \<Rightarrow> Float" where
  "fixture_round t =
     (if \<bar>t\<bar> \<le> 1 / 2 ^ 150 then Fin 0
      else if 2 ^ 128 \<le> \<bar>t\<bar> then (if 0 < t then PInf else NInf)
      else Fin t)"

definition fixture_draw :: "Float list \<Rightarrow> Float \<times> Float list" where
  "fixture_draw rng = (case rng of [] \<Rightarrow> (Fin 0, []) | r # rs \<Rightarrow> (r, rs))"

definition fixture_ext :: "(Float list, Float list) ext" where
  "fixture_ext =
     \<lparr>build_from_w = fixture_build_from_w,
      world_to_local = fixture_world_to_local,
      local_to_world = fixture_local_to_world,
      unif_rand = fixture_draw,
      random_cosine_direction = (\<lambda>rng. (vec3 (Fin 0) (Fin 0) (Fin 1), drop 2 rng)),
      Get1D = fixture_draw,
      Get2D = (\<lambda>sampler. (vec2 (fst (fixture_draw sampler)) (fst (fixture_draw (drop 1 sampler))),
                            drop 2 sampler)),
      rand_cosine_direction = (\<lambda>u2. vec3 (Fin 0) (Fin 0) (Fin 1)),
      Reflect = (\<lambda>wo n. vadd (vneg wo) (vscale (fmul (Fin 2) (dot wo n)) n)),
      hair_pdf_value = (\<lambda>this direction rng. (Fin 0, rng)),
      hair_pdf_generate = (\<lambda>this rng. (vec3 (Fin 0) (Fin 0) (Fin 1), rng)),
      hair_pdf_generate_s = (\<lambda>this sampler. (vec3 (Fin 0) (Fin 0) (Fin 1), sampler)),
      left_first = True,
      args_left_first = True,
      float_round = fixture_round,
      double_round = Fin\<rparr>"

definition fixture_distribution :: MicrofacetDistribution where
  "fixture_distribution =
     \<lparr>Pdf = (\<lambda>wo wi wh. Fin 1), Sample_wh = (\<lambda>wi u1 u2. vec3 (Fin 0) (Fin 0) (Fin 1))\<rparr>"

definition unbounded_distribution :: MicrofacetDistribution where
  "unbounded_distribution =
     \<lparr>Pdf = (\<lambda>wo wi wh. PInf), Sample_wh = (\<lambda>wi u1 u2. vec3 (Fin 0) (Fin 0) (Fin 1))\<rparr>"

section \<open>Facts about the arithmetic\<close>

lemma fmul_M_1_PI: "fmul t M_1_PI = fdiv t M_PI"
  by (cases t) (simp_all add: M_1_PI_def M_PI_def inf_of_sign_def)

lemma half_sum_mean: "fadd (fmul (Fin (1 / 2)) s) (fmul (Fin (1 / 2)) t) = fdiv (fadd s t) (Fin 2)"
  by (cases s; cases t) (simp_all add: inf_of_sign_def field_simps)

lemma half_sum_same: "t \<noteq> NaN \<Longrightarrow> fadd (fmul (Fin (1 / 2)) t) (fmul (Fin (1 / 2)) t) = t"
  by (cases t) (simp_all add: inf_of_sign_def)

lemma sqrt_16: "sqrt (16::real) = 4"
  using real_sqrt_abs[of 4] by simp

lemma fless_zero_fdiv_pi: "fless (Fin 0) t \<Longrightarrow> \<not> fless (fdiv t M_PI) (Fin 0)"
  by (cases t) (simp_all add: M_PI_def not_less divide_nonneg_pos)

lemma cosine_pdf_value_not_NaN: "fst (cosine_pdf_value this direction rng) \<noteq> NaN"
proof -
  have "fless (Fin 0) t \<Longrightarrow> fdiv t M_PI \<noteq> NaN" for t
    by (cases t) (simp_all add: M_PI_def)
  then show ?thesis
    by (simp add: cosine_pdf_value_def Let_def)
qed

lemma fixture_frame_z:
  "fixture_build_from_w (vec3 (Fin 0) (Fin 0) (Fin 1)) =
     \<lparr>onb_u = vec3 (Fin (-1)) (Fin 0) (Fin 0), onb_v = vec3 (Fin 0) (Fin 1) (Fin 0),
      onb_w = vec3 (Fin 0) (Fin 0) (Fin 1)\<rparr>"
  by (simp add: fixture_build_from_w_def unit_vector_def vlength_def dot_def vdivs_def
        cross_def fsub_def Let_def)

section \<open>The constructor of hair\_pdf\<close>

lemma copy_v_overrun:
  "length v_arg = pMax + 1 \<Longrightarrow> length vs = pMax + 1 \<Longrightarrow> p \<le> pMax + 1
   \<Longrightarrow> copy_v pMax v_arg p vs = Inl (Read_out_of_bounds (pMax + 1))"
proof (induction pMax v_arg p vs rule: copy_v.induct)
  case (1 pMax v_arg p vs)
  show ?case
  proof (cases "p = pMax + 1")
    case True
    with "1.prems" show ?thesis
      by (subst copy_v.simps) (simp add: array_read_def)
  next
    case False
    with "1.prems" have lt: "p < pMax + 1" by simp
    have rd: "array_read v_arg p = Inr (v_arg ! p)"
      using lt "1.prems" by (simp add: array_read_def)
    have wr: "array_write vs p (v_arg ! p) = Inr (vs[p := v_arg ! p])"
      using lt "1.prems" by (simp add: array_write_def)
    have "copy_v pMax v_arg (p + 1) (vs[p := v_arg ! p]) = Inl (Read_out_of_bounds (pMax + 1))"
      using "1.IH"[OF _ rd wr] "1.prems" lt by simp
    then show ?thesis
      using lt rd wr by (subst copy_v.simps) simp
  qed
qed

text \<open>
  C1. The claim: the constructor copies the longitudinal variances by reading and
  writing exactly the entries \<open>0\<close> to \<open>pMax\<close>, so that every access to \<open>v\<close> and
  \<open>v_\<close> stays inside their \<open>pMax + 1\<close> elements. The loop runs while
  \<open>p <= pMax + 1\<close>: with \<open>pMax = 3\<close> and arrays of four entries it reads \<open>v_[4]\<close>,
  one past the end (and would then write \<open>v[4]\<close>).
\<close>

theorem hair_pdf_copies_past_v:
  "hair_pdf 3 NaN (fixture_build_from_w (vec3 (Fin 0) (Fin 0) (Fin 1)))
     (vec3 (Fin 0) (Fin 0) (Fin 1)) (vec3 (Fin 0) (Fin 0) (Fin 1))
     (Fin (3 / 2)) (Fin 0) (Fin 0) (Fin 1) (vec3 (Fin 0) (Fin 0) (Fin 0))
     [Fin 1, Fin 1, Fin 1] [Fin 0, Fin 0, Fin 0] [Fin 1, Fin 2, Fin 3, Fin 4]
   = Inl (Read_out_of_bounds 4)"
proof -
  have "copy_v 3 [Fin 1, Fin 2, Fin 3, Fin 4] 0 (replicate (3 + 1) NaN)
          = Inl (Read_out_of_bounds (3 + 1))"
    by (rule copy_v_overrun) simp_all
  moreover have "\<exists>st. copy_2kAlpha [Fin 0, Fin 0, Fin 0] [Fin 1, Fin 1, Fin 1] 0
                    (replicate 3 NaN, replicate 3 NaN) = Inr st"
    by (simp add: array_read_def array_write_def numeral_3_eq_3)
  ultimately show ?thesis
    by (auto simp add: hair_pdf_def)
qed

section \<open>The triangle\<close>

text \<open>
  C2. The claim: after either constructor the stored \<open>normal\<close> is the unit vector
  along \<open>cross(edge1, edge2)\<close>. The constructor with shading normals never calls
  \<open>make_unit_vector\<close>: for the triangle \<open>(0,0,0)\<close>, \<open>(2,0,0)\<close>, \<open>(0,2,0)\<close> it
  stores \<open>(0,0,4)\<close>, of length \<open>4\<close>, where the constructor without shading normals
  stores \<open>(0,0,1)\<close>.
\<close>

theorem triangle_normals_not_unit:
  "normal (triangle_normals (vec3 (Fin 0) (Fin 0) (Fin 0)) (vec3 (Fin 2) (Fin 0) (Fin 0))
             (vec3 (Fin 0) (Fin 2) (Fin 0)) (vec3 (Fin 0) (Fin 0) (Fin 1))
             (vec3 (Fin 0) (Fin 0) (Fin 1)) (vec3 (Fin 0) (Fin 0) (Fin 1)) True None None None)
     = vec3 (Fin 0) (Fin 0) (Fin 4)
   \<and> vlength (normal (triangle_normals (vec3 (Fin 0) (Fin 0) (Fin 0))
             (vec3 (Fin 2) (Fin 0) (Fin 0)) (vec3 (Fin 0) (Fin 2) (Fin 0))
             (vec3 (Fin 0) (Fin 0) (Fin 1)) (vec3 (Fin 0) (Fin 0) (Fin 1))
             (vec3 (Fin 0) (Fin 0) (Fin 1)) True None None None))
     = Fin 4
   \<and> normal (triangle_flat (vec3 (Fin 0) (Fin 0) (Fin 0)) (vec3 (Fin 2) (Fin 0) (Fin 0))
             (vec3 (Fin 0) (Fin 2) (Fin 0)) True None None None)
     = vec3 (Fin 0) (Fin 0) (Fin 1)"
  by (simp add: triangle_normals_def triangle_flat_def Let_def vsub_def cross_def fsub_def
        vlength_def dot_def make_unit_vector_def unit_vector_def vdivs_def sqrt_16)

section \<open>cosine\_pdf\<close>

text \<open>
  C3. For every direction, \<open>cosine_pdf::value\<close> returns \<open>cosine / M_PI\<close> when the
  cosine between the normalised direction and the frame's \<open>w\<close> axis is strictly
  positive and \<open>0\<close> otherwise; the result is never negative; and for a frame built
  from \<open>(0,0,1)\<close> whose \<open>w\<close> axis is that vector, the value at \<open>(0,0,1)\<close> is
  \<open>1/\<pi>\<close> and the value at \<open>(0,0,-1)\<close> is \<open>0\<close>.
\<close>

theorem cosine_pdf_value_spec:
  "cosine_pdf_value this direction rng =
     (if fless (Fin 0) (dot (unit_vector direction) (onb_w (cosine_uvw this)))
      then (fdiv (dot (unit_vector direction) (onb_w (cosine_uvw this))) M_PI, rng)
      else (Fin 0, rng))
   \<and> \<not> fless (fst (cosine_pdf_value this direction rng)) (Fin 0)
   \<and> (onb_w (build_from_w E (vec3 (Fin 0) (Fin 0) (Fin 1))) = vec3 (Fin 0) (Fin 0) (Fin 1) \<longrightarrow>
        fst (cosine_pdf_value (cosine_pdf E (vec3 (Fin 0) (Fin 0) (Fin 1)))
               (vec3 (Fin 0) (Fin 0) (Fin 1)) rng) = Fin (1 / pi)
      \<and> fst (cosine_pdf_value (cosine_pdf E (vec3 (Fin 0) (Fin 0) (Fin 1)))
               (vec3 (Fin 0) (Fin 0) (Fin (- 1))) rng) = Fin 0)"
proof (intro conjI impI)
  show "cosine_pdf_value this direction rng =
     (if fless (Fin 0) (dot (unit_vector direction) (onb_w (cosine_uvw this)))
      then (fdiv (dot (unit_vector direction) (onb_w (cosine_uvw this))) M_PI, rng)
      else (Fin 0, rng))"
    by (simp add: cosine_pdf_value_def Let_def)
  show "\<not> fless (fst (cosine_pdf_value this direction rng)) (Fin 0)"
    by (simp add: cosine_pdf_value_def Let_def fless_zero_fdiv_pi)
next
  assume w: "onb_w (build_from_w E (vec3 (Fin 0) (Fin 0) (Fin 1))) = vec3 (Fin 0) (Fin 0) (Fin 1)"
  show "fst (cosine_pdf_value (cosine_pdf E (vec3 (Fin 0) (Fin 0) (Fin 1)))
               (vec3 (Fin 0) (Fin 0) (Fin 1)) rng) = Fin (1 / pi)"
    using w by (simp add: cosine_pdf_value_def cosine_pdf_def Let_def unit_vector_def
        vlength_def dot_def vdivs_def M_PI_def)
  show "fst (cosine_pdf_value (cosine_pdf E (vec3 (Fin 0) (Fin 0) (Fin 1)))
               (vec3 (Fin 0) (Fin 0) (Fin (- 1))) rng) = Fin 0"
    using w by (simp add: cosine_pdf_value_def cosine_pdf_def Let_def unit_vector_def
        vlength_def dot_def vdivs_def M_PI_def)
qed

theorem cosine_pdf_value_spec_witness:
  "onb_w (build_from_w fixture_ext (vec3 (Fin 0) (Fin 0) (Fin 1))) = vec3 (Fin 0) (Fin 0) (Fin 1)
   \<and> fst (cosine_pdf_value (cosine_pdf fixture_ext (vec3 (Fin 0) (Fin 0) (Fin 1)))
            (vec3 (Fin 0) (Fin 0) (Fin 1)) ([] :: Float list)) = Fin (1 / pi)
   \<and> fst (cosine_pdf_value (cosine_pdf fixture_ext (vec3 (Fin 0) (Fin 0) (Fin 1)))
            (vec3 (Fin 0) (Fin 0) (Fin (- 1))) ([] :: Float list)) = Fin 0"
proof -
  have w: "onb_w (build_from_w fixture_ext (vec3 (Fin 0) (Fin 0) (Fin 1)))
             = vec3 (Fin 0) (Fin 0) (Fin 1)"
    by (simp add: fixture_ext_def fixture_frame_z)
  show ?thesis
    using w cosine_pdf_value_spec[of "cosine_pdf fixture_ext (vec3 (Fin 0) (Fin 0) (Fin 1))"
        "vec3 (Fin 0) (Fin 0) (Fin 1)" "[] :: Float list" fixture_ext]
    by blast
qed

section \<open>glossy\_pdf\<close>

lemma rounded_exact: "rounded Fin t = t"
  by (cases t) (simp_all add: rounded_def)

lemma fixture_round_underflow:
  "fmul (Fin (1 / 2 ^ 80)) (Fin (- (1 / 2 ^ 80))) = Fin (- (1 / 2 ^ 160))
   \<and> float_mul fixture_ext (Fin (1 / 2 ^ 80)) (Fin (- (1 / 2 ^ 80))) = Fin 0"
proof -
  have "(2::real) ^ 150 \<le> 2 ^ 160"
    by (rule power_increasing) simp_all
  then have "1 / (2::real) ^ 160 \<le> 1 / 2 ^ 150"
    by (simp add: field_simps)
  then show ?thesis
    by (simp add: float_mul_def rounded_def fixture_ext_def fixture_round_def
          power_add[symmetric])
qed

lemma glossy_fixture_object:
  "glossy_pdf fixture_ext (vec3 (Fin 0) (Fin 0) (Fin 1)) (vec3 (Fin 0) (Fin 0) (Fin (- 1))) md =
     \<lparr>glossy_uvw = \<lparr>onb_u = vec3 (Fin (-1)) (Fin 0) (Fin 0),
                      onb_v = vec3 (Fin 0) (Fin 1) (Fin 0),
                      onb_w = vec3 (Fin 0) (Fin 0) (Fin 1)\<rparr>,
      glossy_wi = vec3 (Fin 0) (Fin 0) (Fin 1),
      glossy_distribution = md\<rparr>"
proof -
  have bfw: "build_from_w fixture_ext = fixture_build_from_w"
    by (simp add: fixture_ext_def)
  have wtl: "world_to_local fixture_ext = fixture_world_to_local"
    by (simp add: fixture_ext_def)
  show ?thesis
    by (simp add: glossy_pdf_def bfw wtl fixture_frame_z Let_def
          fixture_world_to_local_def dot_def unit_vector_def vlength_def vdivs_def vneg_def)
qed

text \<open>
  Where neither format rounds, the value in the second branch is the formula of the
  spec, \<open>0.5 * (|wi.z| / \<pi> + Pdf(wo, wi, wh) / (4 * dot(wo, wh)))\<close>.
\<close>

lemma glossy_pdf_value_exact_arithmetic:
  assumes "float_round E = Fin" and "double_round E = Fin"
  shows "glossy_pdf_value E this direction rng =
     (let wi = glossy_wi this;
          wo = unit_vector (world_to_local E (glossy_uvw this) direction);
          wh = unit_vector (vadd wi wo)
      in if fless (fmul (vec3_z wo) (vec3_z wi)) (Fin 0) then (INFINITY, rng)
         else (fmul (Fin (1 / 2))
                 (fadd (fdiv (fabs (vec3_z wi)) M_PI)
                       (fdiv (Pdf (glossy_distribution this) wo wi wh)
                             (fmul (Fin 4) (dot wo wh)))), rng))"
  using assms
  by (simp add: glossy_pdf_value_def Let_def AbsCosTheta_def fmul_M_1_PI float_mul_def
        float_div_def double_mul_def double_add_def rounded_exact)

text \<open>
  C4. The claim: \<open>glossy_pdf::value\<close> returns \<open>INFINITY\<close> exactly when
  \<open>wo.z * wi.z < 0\<close> and in every other case returns
  \<open>0.5 * (|wi.z| / \<pi> + distribution.Pdf(wo, wi, wh) / (4 * dot(wo, wh)))\<close> with
  \<open>wh = normalize(wi + wo)\<close>. What holds: the member returns \<open>INFINITY\<close> whenever
  the product \<open>wo.z * wi.z\<close>, as the \<open>Float\<close> format stores it, compares below
  \<open>0\<close>, and in every other case returns the formula as floating-point arithmetic
  evaluates it, with \<open>|wi.z| / \<pi>\<close> computed as \<open>|wi.z| * M_1_PI\<close>; that value can
  itself be infinite, so the result is \<open>INFINITY\<close> exactly when the test holds or the
  formula evaluates to \<open>INFINITY\<close>.
\<close>

theorem glossy_pdf_value_spec:
  "glossy_pdf_value E this direction rng =
     (let wi = glossy_wi this;
          wo = unit_vector (world_to_local E (glossy_uvw this) direction);
          wh = unit_vector (vadd wi wo)
      in if fless (float_mul E (vec3_z wo) (vec3_z wi)) (Fin 0) then (INFINITY, rng)
         else (rounded (float_round E)
                 (double_mul E (Fin (1 / 2))
                    (double_add E
                       (double_mul E (fabs (vec3_z wi)) M_1_PI)
                       (float_div E (Pdf (glossy_distribution this) wo wi wh)
                                    (float_mul E (Fin 4) (dot wo wh))))), rng))
   \<and> (let wi = glossy_wi this;
           wo = unit_vector (world_to_local E (glossy_uvw this) direction);
           wh = unit_vector (vadd wi wo)
       in fst (glossy_pdf_value E this direction rng) = INFINITY
          \<longleftrightarrow> (fless (float_mul E (vec3_z wo) (vec3_z wi)) (Fin 0)
               \<or> rounded (float_round E)
                    (double_mul E (Fin (1 / 2))
                       (double_add E
                          (double_mul E (fabs (vec3_z wi)) M_1_PI)
                          (float_div E (Pdf (glossy_distribution this) wo wi wh)
                                       (float_mul E (Fin 4) (dot wo wh))))) = INFINITY))"
proof (rule conjI)
  show "glossy_pdf_value E this direction rng =
     (let wi = glossy_wi this;
          wo = unit_vector (world_to_local E (glossy_uvw this) direction);
          wh = unit_vector (vadd wi wo)
      in if fless (float_mul E (vec3_z wo) (vec3_z wi)) (Fin 0) then (INFINITY, rng)
         else (rounded (float_round E)
                 (double_mul E (Fin (1 / 2))
                    (double_add E
                       (double_mul E (fabs (vec3_z wi)) M_1_PI)
                       (float_div E (Pdf (glossy_distribution this) wo wi wh)
                                    (float_mul E (Fin 4) (dot wo wh))))), rng))"
    by (simp add: glossy_pdf_value_def Let_def AbsCosTheta_def)
  then show "(let wi = glossy_wi this;
           wo = unit_vector (world_to_local E (glossy_uvw this) direction);
           wh = unit_vector (vadd wi wo)
       in fst (glossy_pdf_value E this direction rng) = INFINITY
          \<longleftrightarrow> (fless (float_mul E (vec3_z wo) (vec3_z wi)) (Fin 0)
               \<or> rounded (float_round E)
                    (double_mul E (Fin (1 / 2))
                       (double_add E
                          (double_mul E (fabs (vec3_z wi)) M_1_PI)
                          (float_div E (Pdf (glossy_distribution this) wo wi wh)
                                       (float_mul E (Fin 4) (dot wo wh))))) = INFINITY))"
    by (simp add: Let_def)
qed

text \<open>
  The claim's ``exactly when'' fails where the formula is itself infinite. With a
  distribution whose density is infinite, the frame built from \<open>(0,0,1)\<close>, the incoming
  direction \<open>(0,0,-1)\<close> and the direction \<open>(0,0,1)\<close>, both local directions are
  \<open>(0,0,1)\<close>: the product is \<open>1\<close>, not below \<open>0\<close>, and the value is \<open>INFINITY\<close>.
\<close>

theorem glossy_pdf_value_sentinel_not_exact:
  "fst (glossy_pdf_value fixture_ext
          (glossy_pdf fixture_ext (vec3 (Fin 0) (Fin 0) (Fin 1)) (vec3 (Fin 0) (Fin 0) (Fin (- 1)))
             unbounded_distribution)
          (vec3 (Fin 0) (Fin 0) (Fin 1)) ([] :: Float list)) = INFINITY
   \<and> \<not> fless
         (float_mul fixture_ext
            (vec3_z (unit_vector (world_to_local fixture_ext
               (glossy_uvw (glossy_pdf fixture_ext (vec3 (Fin 0) (Fin 0) (Fin 1))
                  (vec3 (Fin 0) (Fin 0) (Fin (- 1))) unbounded_distribution))
               (vec3 (Fin 0) (Fin 0) (Fin 1)))))
            (vec3_z (glossy_wi (glossy_pdf fixture_ext (vec3 (Fin 0) (Fin 0) (Fin 1))
               (vec3 (Fin 0) (Fin 0) (Fin (- 1))) unbounded_distribution))))
         (Fin 0)"
proof -
  have wtl: "world_to_local fixture_ext = fixture_world_to_local"
    by (simp add: fixture_ext_def)
  have dr: "double_round fixture_ext = Fin"
    by (simp add: fixture_ext_def)
  have rnd: "float_mul fixture_ext (Fin 1) (Fin 1) = Fin 1"
    by (simp add: float_mul_def rounded_def fixture_ext_def fixture_round_def)
  have wl: "fixture_world_to_local
              \<lparr>onb_u = vec3 (Fin (-1)) (Fin 0) (Fin 0), onb_v = vec3 (Fin 0) (Fin 1) (Fin 0),
               onb_w = vec3 (Fin 0) (Fin 0) (Fin 1)\<rparr> (vec3 (Fin 0) (Fin 0) (Fin 1))
            = vec3 (Fin 0) (Fin 0) (Fin 1)"
    by (simp add: fixture_world_to_local_def dot_def)
  have uv: "unit_vector (vec3 (Fin 0) (Fin 0) (Fin 1)) = vec3 (Fin 0) (Fin 0) (Fin 1)"
    by (simp add: unit_vector_def vlength_def dot_def vdivs_def)
  have wh: "unit_vector (vadd (vec3 (Fin 0) (Fin 0) (Fin 1)) (vec3 (Fin 0) (Fin 0) (Fin 1)))
            = vec3 (Fin 0) (Fin 0) (Fin 1)"
    by (simp add: vadd_def unit_vector_def vlength_def dot_def vdivs_def)
  have dt: "dot (vec3 (Fin 0) (Fin 0) (Fin 1)) (vec3 (Fin 0) (Fin 0) (Fin 1)) = Fin 1"
    by (simp add: dot_def)
  have four: "float_mul fixture_ext (Fin 4) (Fin 1) = Fin 4"
    by (simp add: float_mul_def rounded_def fixture_ext_def fixture_round_def)
  have quot: "float_div fixture_ext PInf (Fin 4) = PInf"
    by (simp add: float_div_def rounded_def)
  have formula: "rounded (float_round fixture_ext)
          (double_mul fixture_ext (Fin (1 / 2))
             (double_add fixture_ext (double_mul fixture_ext (Fin 1) M_1_PI) PInf)) = PInf"
    by (simp add: double_mul_def double_add_def dr rounded_exact M_1_PI_def rounded_def
          inf_of_sign_def)
  show ?thesis
    unfolding glossy_fixture_object glossy_pdf_value_def Let_def
    by (simp add: wtl wl uv wh dt rnd four quot formula unbounded_distribution_def
          AbsCosTheta_def INFINITY_def)
qed

section \<open>mixture\_pdf\<close>

text \<open>
  C5. For every direction and every two components, \<open>mixture_pdf::value\<close> returns
  \<open>0.5 * p[0]->value(d) + 0.5 * p[1]->value(d)\<close>, which is the arithmetic mean of the
  two densities. Each component is evaluated once, at the generator state it is handed:
  the caller's state for the operand evaluated first and the state the first left for
  the other.
\<close>

theorem mixture_pdf_value_mean:
  "fst (pdf_value_of E (mixture_pdf p0 p1) direction rng) =
     fadd (fmul (Fin (1 / 2))
             (fst (pdf_value_of E p0 direction
                     (if left_first E then rng else snd (pdf_value_of E p1 direction rng)))))
          (fmul (Fin (1 / 2))
             (fst (pdf_value_of E p1 direction
                     (if left_first E then snd (pdf_value_of E p0 direction rng) else rng))))
   \<and> fst (pdf_value_of E (mixture_pdf p0 p1) direction rng) =
     fdiv (fadd (fst (pdf_value_of E p0 direction
                        (if left_first E then rng else snd (pdf_value_of E p1 direction rng))))
                (fst (pdf_value_of E p1 direction
                        (if left_first E then snd (pdf_value_of E p0 direction rng) else rng))))
          (Fin 2)"
proof -
  have first: "fst (pdf_value_of E (mixture_pdf p0 p1) direction rng) =
     fadd (fmul (Fin (1 / 2))
             (fst (pdf_value_of E p0 direction
                     (if left_first E then rng else snd (pdf_value_of E p1 direction rng)))))
          (fmul (Fin (1 / 2))
             (fst (pdf_value_of E p1 direction
                     (if left_first E then snd (pdf_value_of E p0 direction rng) else rng))))"
    by (simp add: mixture_pdf_def Let_def split: prod.splits)
  show ?thesis
    using first by (simp only: half_sum_mean)
qed

text \<open>
  C6. For every axis and every direction, the mixture of two \<open>cosine_pdf\<close> objects
  built from that axis has the same \<open>value\<close> as one \<open>cosine_pdf\<close> built from it.
\<close>

theorem mixture_of_equal_cosine_pdfs:
  "pdf_value_of E (mixture_pdf (Cosine (cosine_pdf E n)) (Cosine (cosine_pdf E n))) direction rng
     = pdf_value_of E (Cosine (cosine_pdf E n)) direction rng"
proof -
  have st: "snd (cosine_pdf_value this direction g) = g" for this and g :: 'a
    by (simp add: cosine_pdf_value_def Let_def)
  have ind: "fst (cosine_pdf_value this direction g) = fst (cosine_pdf_value this direction g')"
    for this and g g' :: 'a
    by (simp add: cosine_pdf_value_def Let_def)
  obtain t where t: "cosine_pdf_value (cosine_pdf E n) direction rng = (t, rng)"
    using st[of "cosine_pdf E n" rng] by (cases "cosine_pdf_value (cosine_pdf E n) direction rng") simp
  have "t \<noteq> NaN"
    using cosine_pdf_value_not_NaN[of "cosine_pdf E n" direction rng] t by simp
  then show ?thesis
    using t by (simp add: mixture_pdf_def half_sum_same)
qed

text \<open>
  C7. Both forms of \<open>mixture_pdf::generate\<close> draw one uniform number, delegate to
  \<open>p[0]\<close> when it is strictly below \<open>0.5\<close> and to \<open>p[1]\<close> otherwise, and hand the
  delegate the generator (or sampler) as that single draw left it; the number drawn
  is used for the comparison only.
\<close>

theorem mixture_pdf_generate_spec:
  "pdf_generate E (mixture_pdf p0 p1) rng =
     (if fless (fst (unif_rand E rng)) (Fin (1 / 2))
      then pdf_generate E p0 (snd (unif_rand E rng))
      else pdf_generate E p1 (snd (unif_rand E rng)))
   \<and> pdf_generate_s E (mixture_pdf p0 p1) sampler =
     (if fless (fst (Get1D E sampler)) (Fin (1 / 2))
      then pdf_generate_s E p0 (snd (Get1D E sampler))
      else pdf_generate_s E p1 (snd (Get1D E sampler)))"
  by (simp add: mixture_pdf_def split: prod.splits)

section \<open>hitable\_pdf\<close>

text \<open>
  C8. \<open>hitable_pdf\<close> delegates with a fixed origin: the constructor stores the origin
  it is given, \<open>value\<close> is the collection's \<open>pdf_value\<close> at that origin and both
  forms of \<open>generate\<close> are the collection's \<open>random\<close> at that origin. No member
  assigns \<open>o\<close>, so the members are functions of the object that return no new object.
\<close>

theorem hitable_pdf_delegates:
  "hitable_o (hitable_pdf p origin) = origin
   \<and> hitable_ptr (hitable_pdf p origin) = p
   \<and> pdf_value_of E (Hitable (hitable_pdf p origin)) direction rng = pdf_value p origin direction rng
   \<and> pdf_generate E (Hitable (hitable_pdf p origin)) rng = random p origin rng
   \<and> pdf_generate_s E (Hitable (hitable_pdf p origin)) sampler = random_s p origin sampler"
  by (simp add: hitable_pdf_def hitable_pdf_value_def hitable_pdf_generate_def
        hitable_pdf_generate_s_def)

section \<open>The destructor of the triangle\<close>

text \<open>
  C9. The destructor of a triangle built with \<open>single = true\<close> deletes its material,
  its alpha mask and its bump texture, each one that is not null exactly once, and the
  destructor of a triangle built with \<open>single = false\<close> deletes nothing; this holds
  for both constructors.
\<close>

theorem triangle_dtor_ownership:
  "triangle_dtor (triangle_flat p q r True mat am bt) deleted =
     deleted @ (case mat of None \<Rightarrow> [] | Some m \<Rightarrow> [Material m])
             @ (case am of None \<Rightarrow> [] | Some m \<Rightarrow> [Alpha_texture m])
             @ (case bt of None \<Rightarrow> [] | Some m \<Rightarrow> [Bump_texture m])
   \<and> triangle_dtor (triangle_normals p q r n1 n2 n3 True mat am bt) deleted =
     deleted @ (case mat of None \<Rightarrow> [] | Some m \<Rightarrow> [Material m])
             @ (case am of None \<Rightarrow> [] | Some m \<Rightarrow> [Alpha_texture m])
             @ (case bt of None \<Rightarrow> [] | Some m \<Rightarrow> [Bump_texture m])
   \<and> distinct ((case mat of None \<Rightarrow> [] | Some m \<Rightarrow> [Material m])
             @ (case am of None \<Rightarrow> [] | Some m \<Rightarrow> [Alpha_texture m])
             @ (case bt of None \<Rightarrow> [] | Some m \<Rightarrow> [Bump_texture m]))
   \<and> triangle_dtor (triangle_flat p q r False mat am bt) deleted = deleted
   \<and> triangle_dtor (triangle_normals p q r n1 n2 n3 False mat am bt) deleted = deleted"
  by (simp add: triangle_dtor_def triangle_flat_def triangle_normals_def delete_def Let_def
        split: option.splits)

section \<open>Density evaluation and the generator\<close>

text \<open>
  C10. \<open>cosine_pdf::value\<close>, \<open>micro_pdf::value\<close> and \<open>glossy_pdf::value\<close> neither
  read nor advance the generator: the density is the same from any two generator
  states, and the state after the call is the state before it.
\<close>

theorem value_ignores_generator:
  "cosine_pdf_value cp direction rng = (fst (cosine_pdf_value cp direction rng'), rng)
   \<and> micro_pdf_value E mp' direction rng = (fst (micro_pdf_value E mp' direction rng'), rng)
   \<and> glossy_pdf_value E gp direction rng = (fst (glossy_pdf_value E gp direction rng'), rng)"
  by (simp add: cosine_pdf_value_def micro_pdf_value_def glossy_pdf_value_def Let_def)

end
